theory Spec2Isabelle
  imports Main "HOL-Library.AList"
begin

section \<open>Python values\<close>

text \<open>
  A Python \<open>str\<close> is a sequence of Unicode code points, and slicing (\<open>s[:50]\<close>) counts code
  points. The source holds characters beyond ASCII (U+2026, U+20B9, U+2705, U+274C, U+26A0,
  U+FE0F), so a string is modelled as the list of its code points; \<open>ascii\<close> embeds an ASCII
  literal.
\<close>

type_synonym codepoint = nat
type_synonym pystr = "codepoint list"

definition ascii :: "string \<Rightarrow> pystr" where
  "ascii s = map of_char s"

definition ellipsis :: pystr where "ellipsis = [0x2026]"
definition rupee_sign :: pystr where "rupee_sign = [0x20B9]"
definition check_mark :: pystr where "check_mark = [0x2705]"
definition cross_mark :: pystr where "cross_mark = [0x274C]"
definition warning_sign :: pystr where "warning_sign = [0x26A0, 0xFE0F]"

text \<open>
  The values the endpoints put into their JSON payloads: \<open>None\<close>, strings, lists and
  dictionaries. A dictionary keeps its keys in insertion order, so it is an association list.
\<close>

datatype json = JNone | JStr pystr | JList "json list" | JDict "(pystr \<times> json) list"

type_synonym pydict = "(pystr \<times> json) list"

text \<open>\<open>d[k] = v\<close>: an existing key keeps its position, a new key goes to the end.\<close>

definition setitem :: "pydict \<Rightarrow> pystr \<Rightarrow> json \<Rightarrow> pydict" where
  "setitem d k v = AList.update k v d"

definition keys :: "pydict \<Rightarrow> pystr list" where
  "keys d = map fst d"

definition getitem :: "pydict \<Rightarrow> pystr \<Rightarrow> json option" where
  "getitem d k = map_of d k"

section \<open>The wall clock\<close>

text \<open>
  \<open>datetime.utcnow()\<close> reads the clock; of its fields \<open>strftime("%H:%M:%S")\<close> uses the hour
  (0..23), the minute and the second (0..59), each printed as two decimal digits.
\<close>

record utc_time =
  hour :: nat
  minute :: nat
  second :: nat

definition two_digits :: "nat \<Rightarrow> pystr" where
  "two_digits n = [48 + n div 10 mod 10, 48 + n mod 10]"

definition strftime_HMS :: "utc_time \<Rightarrow> pystr" where
  "strftime_HMS d = two_digits (hour d) @ ascii '':'' @ two_digits (minute d) @ ascii '':''
     @ two_digits (second d)"

section \<open>The simulation endpoint\<close>

record SimulationRequest =
  scenario :: "pystr option"
  speed :: "pystr option"

record SimulationEvent =
  t :: pystr
  type :: pystr
  message :: pystr
  level :: pystr

text \<open>The entries of \<open>base\<close>: dictionaries with the keys \<open>type\<close>, \<open>message\<close>, \<open>level\<close>.\<close>

definition simulation_base :: "pydict list" where
  "simulation_base =
   [ [(ascii ''type'', JStr (ascii ''info'')),
      (ascii ''message'', JStr (ascii ''Monitoring'' @ ellipsis @ ascii '' no threats detected.'')),
      (ascii ''level'', JStr (ascii ''info''))],
     [(ascii ''type'', JStr (ascii ''ingest'')),
      (ascii ''message'', JStr (ascii ''New SMS analysed.'')),
      (ascii ''level'', JStr (ascii ''info''))],
     [(ascii ''type'', JStr (ascii ''detect'')),
      (ascii ''message'', JStr (ascii ''Suspicious UPI intent detected.'')),
      (ascii ''level'', JStr (ascii ''warn''))],
     [(ascii ''type'', JStr (ascii ''freeze'')),
      (ascii ''message'', JStr (ascii ''Auto-freeze triggered: UPI channel frozen.'')),
      (ascii ''level'', JStr (ascii ''critical''))],
     [(ascii ''type'', JStr (ascii ''legal'')),
      (ascii ''message'', JStr (ascii ''Complaint drafted for cyber cell + RBI ombudsman.'')),
      (ascii ''level'', JStr (ascii ''success''))],
     [(ascii ''type'', JStr (ascii ''recover'')),
      (ascii ''message'', JStr (ascii ''Recovery workflow initiated with bank dispute.'')),
      (ascii ''level'', JStr (ascii ''success''))] ]"

text \<open>
  \<open>SimulationEvent(t=now, **e)\<close>: the keyword \<open>t\<close> given twice is a TypeError, and each of
  the three declared fields must be there and be a string, else the constructor raises.
  \<open>None\<close> stands for the raise.
\<close>

definition make_event :: "pystr \<Rightarrow> pydict \<Rightarrow> SimulationEvent option" where
  "make_event now e =
     (if ascii ''t'' \<in> set (keys e) then None
      else case (getitem e (ascii ''type''), getitem e (ascii ''message''),
                 getitem e (ascii ''level'')) of
             (Some (JStr ty), Some (JStr msg), Some (JStr lvl)) \<Rightarrow>
               Some \<lparr>t = now, type = ty, message = msg, level = lvl\<rparr>
           | _ \<Rightarrow> None)"

text \<open>
  The handler reads the clock once, then builds the events by a list comprehension over
  \<open>base\<close>. The request \<open>req\<close> is a parameter that the body never reads.
\<close>

definition run_simulation :: "utc_time \<Rightarrow> SimulationRequest \<Rightarrow> SimulationEvent list option" where
  "run_simulation clock req =
     (let now = strftime_HMS clock
      in those (map (make_event now) simulation_base))"

subsection \<open>Request validation\<close>

text \<open>
  Both fields of \<open>SimulationRequest\<close> are declared \<open>Optional[str]\<close> with a default: a missing
  key takes the default, \<open>null\<close> and any string are accepted, an array or an object is
  refused. The class declares no validator and no enumeration. (JSON numbers and booleans
  are not part of \<open>json\<close>: no payload of the source holds one, and what the validation
  library does with one where a string is declared depends on its version.)
\<close>

datatype http_error = RequestValidationError | UnhandledException

definition validate_optional_str :: "pystr option \<Rightarrow> json option \<Rightarrow> http_error + pystr option" where
  "validate_optional_str dflt v =
     (case v of
        None \<Rightarrow> Inr dflt
      | Some JNone \<Rightarrow> Inr None
      | Some (JStr s) \<Rightarrow> Inr (Some s)
      | Some (JList _) \<Rightarrow> Inl RequestValidationError
      | Some (JDict _) \<Rightarrow> Inl RequestValidationError)"

text \<open>The body must be a JSON object; keys other than the two fields are ignored.\<close>

definition parse_SimulationRequest :: "json \<Rightarrow> http_error + SimulationRequest" where
  "parse_SimulationRequest body =
     (case body of
        JDict d \<Rightarrow>
          (case validate_optional_str (Some (ascii ''upi_scam'')) (getitem d (ascii ''scenario'')) of
             Inl err \<Rightarrow> Inl err
           | Inr sc \<Rightarrow>
               (case validate_optional_str (Some (ascii ''normal'')) (getitem d (ascii ''speed'')) of
                  Inl err \<Rightarrow> Inl err
                | Inr sp \<Rightarrow> Inr \<lparr>scenario = sc, speed = sp\<rparr>))
      | _ \<Rightarrow> Inl RequestValidationError)"

text \<open>
  \<open>POST /api/simulate\<close>: the body is validated, the handler runs, and the events are the
  response (\<open>response_model=List[SimulationEvent]\<close>).
\<close>

definition post_simulate :: "utc_time \<Rightarrow> json \<Rightarrow> http_error + SimulationEvent list" where
  "post_simulate clock body =
     (case parse_SimulationRequest body of
        Inl err \<Rightarrow> Inl err
      | Inr req \<Rightarrow>
          (case run_simulation clock req of
             None \<Rightarrow> Inl UnhandledException
           | Some events \<Rightarrow> Inr events))"

definition event_json :: "SimulationEvent \<Rightarrow> json" where
  "event_json e = JDict [(ascii ''t'', JStr (t e)), (ascii ''type'', JStr (type e)),
     (ascii ''message'', JStr (message e)), (ascii ''level'', JStr (level e))]"

section \<open>The constant endpoints\<close>

definition read_root :: pydict where
  "read_root = [(ascii ''message'', JStr (ascii ''Hello from FastAPI Backend!''))]"

definition hello :: pydict where
  "hello = [(ascii ''message'', JStr (ascii ''Hello from the backend API!''))]"

definition timeline_base :: "json list" where
  "timeline_base =
   [ JDict [(ascii ''time'', JStr (ascii ''12:00'')),
            (ascii ''title'', JStr (ascii ''Fraud request created'')),
            (ascii ''data'', JDict [(ascii ''channel'', JStr (ascii ''UPI'')),
                                   (ascii ''amount'', JStr (rupee_sign @ ascii ''9,999'')),
                                   (ascii ''upi_id'', JStr (ascii ''abc@bank''))])],
     JDict [(ascii ''time'', JStr (ascii ''12:02'')),
            (ascii ''title'', JStr (ascii ''AFSA detected mismatch'')),
            (ascii ''data'', JDict [(ascii ''pattern'', JStr (ascii ''merchant-risk-score>0.82'')),
                                   (ascii ''device_ip'', JStr (ascii ''103.25.*''))])],
     JDict [(ascii ''time'', JStr (ascii ''12:03'')),
            (ascii ''title'', JStr (ascii ''UPI frozen'')),
            (ascii ''data'', JDict [(ascii ''action'', JStr (ascii ''temporary_freeze'')),
                                   (ascii ''duration'', JStr (ascii ''30 min''))])],
     JDict [(ascii ''time'', JStr (ascii ''12:05'')),
            (ascii ''title'', JStr (ascii ''Complaint drafted'')),
            (ascii ''data'', JDict [(ascii ''refs'', JList [JStr (ascii ''Cyber Cell''),
                                                          JStr (ascii ''RBI Ombudsman'')])])],
     JDict [(ascii ''time'', JStr (ascii ''12:07'')),
            (ascii ''title'', JStr (ascii ''Evidence package created'')),
            (ascii ''data'', JDict [(ascii ''items'', JList [JStr (ascii ''SMS''),
                                                           JStr (ascii ''UPI handle''),
                                                           JStr (ascii ''IP hash'')])])],
     JDict [(ascii ''time'', JStr (ascii ''12:10'')),
            (ascii ''title'', JStr (ascii ''Recovery workflow initiated'')),
            (ascii ''data'', JDict [(ascii ''ticket'', JStr (ascii ''BK-34219'')),
                                   (ascii ''priority'', JStr (ascii ''P1''))])] ]"

definition get_timeline :: pydict where
  "get_timeline = [(ascii ''items'', JList timeline_base)]"

definition legal_docs :: "json list" where
  "legal_docs =
   [ JDict [(ascii ''id'', JStr (ascii ''cyber_complaint'')),
            (ascii ''title'', JStr (ascii ''Cyber Complaint Draft'')),
            (ascii ''purpose'', JStr (ascii ''Pre-filled FIR-style complaint'')),
            (ascii ''actions'', JList [JStr (ascii ''preview''), JStr (ascii ''download''),
                                      JStr (ascii ''send'')])],
     JDict [(ascii ''id'', JStr (ascii ''rbi_letter'')),
            (ascii ''title'', JStr (ascii ''RBI Ombudsman Letter'')),
            (ascii ''purpose'', JStr (ascii ''Escalation note with annexures'')),
            (ascii ''actions'', JList [JStr (ascii ''preview''), JStr (ascii ''download''),
                                      JStr (ascii ''send'')])],
     JDict [(ascii ''id'', JStr (ascii ''bank_dispute'')),
            (ascii ''title'', JStr (ascii ''Bank Dispute Form (Autofilled)'')),
            (ascii ''purpose'', JStr (ascii ''Card/UPI chargeback workflow'')),
            (ascii ''actions'', JList [JStr (ascii ''preview''), JStr (ascii ''download''),
                                      JStr (ascii ''send'')])],
     JDict [(ascii ''id'', JStr (ascii ''reconstruction'')),
            (ascii ''title'', JStr (ascii ''Fraud Reconstruction Summary'')),
            (ascii ''purpose'', JStr (ascii ''Timeline + evidence bundle'')),
            (ascii ''actions'', JList [JStr (ascii ''preview''), JStr (ascii ''download''),
                                      JStr (ascii ''send'')])] ]"

definition legal_documents :: pydict where
  "legal_documents = [(ascii ''docs'', JList legal_docs)]"

section \<open>The diagnostic endpoint\<close>

text \<open>
  What \<open>test_database\<close> reads from outside: the outcome of \<open>from database import db\<close>, the
  object \<open>db\<close> and the environment. The module \<open>database\<close> is not part of the source, so its
  behaviour is a parameter. An exception carries its message (\<open>str(e)\<close>) and one of the
  classes the handlers tell apart: \<open>ImportError\<close>, \<open>AttributeError\<close> (which \<open>hasattr\<close>
  swallows), any other subclass of \<open>Exception\<close>, and the exceptions that derive from
  \<open>BaseException\<close> only (\<open>KeyboardInterrupt\<close>, \<open>SystemExit\<close>), which \<open>except Exception\<close> lets
  through.
\<close>

datatype py_exception =
    ImportError pystr
  | AttributeError pystr
  | OtherException pystr
  | BaseExceptionOnly pystr

fun str_exc :: "py_exception \<Rightarrow> pystr" where
  "str_exc (ImportError m) = m"
| "str_exc (AttributeError m) = m"
| "str_exc (OtherException m) = m"
| "str_exc (BaseExceptionOnly m) = m"

fun isinstance_ImportError :: "py_exception \<Rightarrow> bool" where
  "isinstance_ImportError (ImportError _) = True"
| "isinstance_ImportError _ = False"

fun isinstance_Exception :: "py_exception \<Rightarrow> bool" where
  "isinstance_Exception (BaseExceptionOnly _) = False"
| "isinstance_Exception _ = True"

text \<open>
  The object \<open>db\<close>: what reading \<open>db.name\<close> does (the same at each read) and what
  \<open>db.list_collection_names()\<close> does, a list of names when it returns.
\<close>

record database =
  getattr_name :: "py_exception + json"
  list_collection_names :: "py_exception + pystr list"

record world =
  import_db :: "py_exception + database option"
  getenv :: "pystr \<Rightarrow> pystr option"

definition initial_response :: pydict where
  "initial_response =
   [(ascii ''backend'', JStr (check_mark @ ascii '' Running'')),
    (ascii ''database'', JStr (cross_mark @ ascii '' Not Available'')),
    (ascii ''database_url'', JNone),
    (ascii ''database_name'', JNone),
    (ascii ''connection_status'', JStr (ascii ''Not Connected'')),
    (ascii ''collections'', JList [])]"

text \<open>
  The code mutates \<open>response\<close> step by step, and what it has written stays written when a
  later step raises. So each block returns the dictionary together with the exception that
  leaves the block, if any.
\<close>

text \<open>The inner \<open>try\<close> with its \<open>except Exception\<close>.\<close>

definition list_collections_block :: "database \<Rightarrow> pydict \<Rightarrow> pydict \<times> py_exception option" where
  "list_collections_block db response =
     (case list_collection_names db of
        Inr collections \<Rightarrow>
          (let r1 = setitem response (ascii ''collections'') (JList (map JStr (take 10 collections)));
               r2 = setitem r1 (ascii ''database'') (JStr (check_mark @ ascii '' Connected & Working''))
           in (r2, None))
      | Inl e \<Rightarrow>
          (if isinstance_Exception e
           then (setitem response (ascii ''database'')
                   (JStr (warning_sign @ ascii ''  Connected but Error: '' @ take 50 (str_exc e))), None)
           else (response, Some e)))"

text \<open>\<open>db.name if hasattr(db, 'name') else ...\<close>: \<open>hasattr\<close> reads the attribute first.\<close>

definition name_or_connected :: "database \<Rightarrow> py_exception + json" where
  "name_or_connected db =
     (case getattr_name db of
        Inl (AttributeError _) \<Rightarrow> Inr (JStr (check_mark @ ascii '' Connected''))
      | Inl e \<Rightarrow> Inl e
      | Inr v \<Rightarrow> Inr v)"

text \<open>The body of the outer \<open>try\<close>.\<close>

definition try_block :: "world \<Rightarrow> pydict \<Rightarrow> pydict \<times> py_exception option" where
  "try_block w response =
     (case import_db w of
        Inl e \<Rightarrow> (response, Some e)
      | Inr None \<Rightarrow>
          (setitem response (ascii ''database'')
             (JStr (warning_sign @ ascii ''  Available but not initialized'')), None)
      | Inr (Some db) \<Rightarrow>
          (let r1 = setitem response (ascii ''database'') (JStr (check_mark @ ascii '' Available''));
               r2 = setitem r1 (ascii ''database_url'') (JStr (check_mark @ ascii '' Configured''))
           in case name_or_connected db of
                Inl e \<Rightarrow> (r2, Some e)
              | Inr v \<Rightarrow>
                  (let r3 = setitem r2 (ascii ''database_name'') v;
                       r4 = setitem r3 (ascii ''connection_status'') (JStr (ascii ''Connected''))
                   in list_collections_block db r4)))"

text \<open>The two handlers of the outer \<open>try\<close>, in the order of the source.\<close>

definition handle_outer :: "pydict \<times> py_exception option \<Rightarrow> py_exception + pydict" where
  "handle_outer p =
     (case p of
        (response, None) \<Rightarrow> Inr response
      | (response, Some e) \<Rightarrow>
          (if isinstance_ImportError e
           then Inr (setitem response (ascii ''database'')
                  (JStr (cross_mark @ ascii '' Database module not found (run enable-database first)'')))
           else if isinstance_Exception e
           then Inr (setitem response (ascii ''database'')
                  (JStr (cross_mark @ ascii '' Error: '' @ take 50 (str_exc e))))
           else Inl e))"

text \<open>\<open>"... Set" if os.getenv(K) else "... Not Set"\<close>: an empty value is falsy.\<close>

definition set_or_not :: "pystr option \<Rightarrow> json" where
  "set_or_not v =
     (if v \<noteq> None \<and> v \<noteq> Some []
      then JStr (check_mark @ ascii '' Set'')
      else JStr (cross_mark @ ascii '' Not Set''))"

definition check_environment :: "world \<Rightarrow> pydict \<Rightarrow> pydict" where
  "check_environment w response =
     (let r1 = setitem response (ascii ''database_url'') (set_or_not (getenv w (ascii ''DATABASE_URL'')));
          r2 = setitem r1 (ascii ''database_name'') (set_or_not (getenv w (ascii ''DATABASE_NAME'')))
      in r2)"

definition test_database :: "world \<Rightarrow> py_exception + pydict" where
  "test_database w =
     (case handle_outer (try_block w initial_response) of
        Inl e \<Rightarrow> Inl e
      | Inr response \<Rightarrow> Inr (check_environment w response))"

section \<open>The routes\<close>

datatype request =
    GET_root
  | GET_api_hello
  | POST_api_simulate json
  | GET_api_timeline
  | GET_api_legal_docs
  | GET_test

text \<open>
  A request is served in a process state: the clock it reads and the world of the
  diagnostic endpoint. The response is the JSON body, or the error.
\<close>

record process =
  utcnow :: utc_time
  outside :: world

definition serve :: "process \<Rightarrow> request \<Rightarrow> http_error + json" where
  "serve p rq =
     (case rq of
        GET_root \<Rightarrow> Inr (JDict read_root)
      | GET_api_hello \<Rightarrow> Inr (JDict hello)
      | POST_api_simulate body \<Rightarrow>
          (case post_simulate (utcnow p) body of
             Inl err \<Rightarrow> Inl err
           | Inr events \<Rightarrow> Inr (JList (map event_json events)))
      | GET_api_timeline \<Rightarrow> Inr (JDict get_timeline)
      | GET_api_legal_docs \<Rightarrow> Inr (JDict legal_documents)
      | GET_test \<Rightarrow>
          (case test_database (outside p) of
             Inl e \<Rightarrow> Inl UnhandledException
           | Inr response \<Rightarrow> Inr (JDict response)))"

section \<open>Notions of the specification\<close>

text \<open>
  The table of the specification that gives the level of an event from its type
  (info to info, ingest to info, detect to warn, freeze to critical, legal to success,
  recover to success). It is written from the specification's words; the code holds no such
  function, only the six literal entries of \<open>base\<close>.
\<close>

definition spec_level_of_type :: "pystr \<Rightarrow> pystr option" where
  "spec_level_of_type =
     map_of [(ascii ''info'', ascii ''info''), (ascii ''ingest'', ascii ''info''),
             (ascii ''detect'', ascii ''warn''), (ascii ''freeze'', ascii ''critical''),
             (ascii ''legal'', ascii ''success''), (ascii ''recover'', ascii ''success'')]"

text \<open>Reading a key of a JSON object, as a caller of the API does with an item.\<close>

definition json_get :: "pystr \<Rightarrow> json \<Rightarrow> json option" where
  "json_get k j = (case j of JDict d \<Rightarrow> getitem d k | _ \<Rightarrow> None)"

section \<open>The simulation handler computes a fixed list\<close>

lemma run_simulation_events:
  "run_simulation clock req =
   Some [\<lparr>t = strftime_HMS clock, type = ascii ''info'',
           message = ascii ''Monitoring'' @ ellipsis @ ascii '' no threats detected.'',
           level = ascii ''info''\<rparr>,
         \<lparr>t = strftime_HMS clock, type = ascii ''ingest'',
           message = ascii ''New SMS analysed.'', level = ascii ''info''\<rparr>,
         \<lparr>t = strftime_HMS clock, type = ascii ''detect'',
           message = ascii ''Suspicious UPI intent detected.'', level = ascii ''warn''\<rparr>,
         \<lparr>t = strftime_HMS clock, type = ascii ''freeze'',
           message = ascii ''Auto-freeze triggered: UPI channel frozen.'',
           level = ascii ''critical''\<rparr>,
         \<lparr>t = strftime_HMS clock, type = ascii ''legal'',
           message = ascii ''Complaint drafted for cyber cell + RBI ombudsman.'',
           level = ascii ''success''\<rparr>,
         \<lparr>t = strftime_HMS clock, type = ascii ''recover'',
           message = ascii ''Recovery workflow initiated with bank dispute.'',
           level = ascii ''success''\<rparr>]"
  by (simp add: run_simulation_def simulation_base_def make_event_def keys_def getitem_def
      ascii_def ellipsis_def Let_def)

text \<open>
  C2. For every request and every reading of the clock, \<open>run_simulation\<close> returns (no
  constructor raises) a list of exactly 6 events whose types are, in order, info, ingest,
  detect, freeze, legal, recover and whose levels are, in order, info, info, warn, critical,
  success, success; the level of each event is the one the specification's table gives for
  its type.
\<close>

theorem run_simulation_six_events:
  "\<exists>events. run_simulation clock req = Some events \<and> length events = 6
     \<and> map type events = [ascii ''info'', ascii ''ingest'', ascii ''detect'', ascii ''freeze'',
                            ascii ''legal'', ascii ''recover'']
     \<and> map level events = [ascii ''info'', ascii ''info'', ascii ''warn'', ascii ''critical'',
                             ascii ''success'', ascii ''success'']
     \<and> map (\<lambda>e. spec_level_of_type (type e)) events = map (\<lambda>e. Some (level e)) events"
  unfolding run_simulation_events
  by (simp add: spec_level_of_type_def ascii_def)

text \<open>
  C3. Within one call of \<open>run_simulation\<close> all 6 events carry the same \<open>t\<close>: the clock read
  once at the start of the handler, formatted as hours, minutes and seconds.
\<close>

theorem run_simulation_shared_timestamp:
  "\<exists>events. run_simulation clock req = Some events \<and> length events = 6
     \<and> map t events = replicate (length events) (strftime_HMS clock)"
  unfolding run_simulation_events
  by (simp add: eval_nat_numeral)

section \<open>The request does not reach the events\<close>

text \<open>
  C4. Any two accepted requests to \<open>POST /api/simulate\<close>, whatever their bodies and the
  clock readings, are answered with 6 events each that agree on the type, the message and
  the level of every event: only \<open>t\<close> may differ.
\<close>

theorem post_simulate_content_independent:
  assumes "post_simulate clock1 body1 = Inr events1"
      and "post_simulate clock2 body2 = Inr events2"
  shows "length events1 = 6 \<and> length events2 = 6
     \<and> map type events1 = map type events2
     \<and> map message events1 = map message events2
     \<and> map level events1 = map level events2"
proof -
  obtain req1 where r1: "run_simulation clock1 req1 = Some events1"
    using assms(1) by (auto simp: post_simulate_def split: sum.splits option.splits)
  obtain req2 where r2: "run_simulation clock2 req2 = Some events2"
    using assms(2) by (auto simp: post_simulate_def split: sum.splits option.splits)
  from r1 r2 show ?thesis
    unfolding run_simulation_events by auto
qed

text \<open>
  Two accepted requests: an empty object at 09:05:00, and another scenario with speed
  \<open>fast\<close> at 23:59:58. The timestamps differ, the messages do not.
\<close>

theorem post_simulate_content_independent_witness:
  "\<not> isl (post_simulate \<lparr>hour = 9, minute = 5, second = 0\<rparr> (JDict []))
   \<and> \<not> isl (post_simulate \<lparr>hour = 23, minute = 59, second = 58\<rparr>
        (JDict [(ascii ''scenario'', JStr (ascii ''card_fraud'')),
                (ascii ''speed'', JStr (ascii ''fast''))]))
   \<and> map t (projr (post_simulate \<lparr>hour = 9, minute = 5, second = 0\<rparr> (JDict [])))
       = replicate 6 (ascii ''09:05:00'')
   \<and> map t (projr (post_simulate \<lparr>hour = 23, minute = 59, second = 58\<rparr>
        (JDict [(ascii ''scenario'', JStr (ascii ''card_fraud'')),
                (ascii ''speed'', JStr (ascii ''fast''))])))
       = replicate 6 (ascii ''23:59:58'')
   \<and> map message (projr (post_simulate \<lparr>hour = 9, minute = 5, second = 0\<rparr> (JDict [])))
       = map message (projr (post_simulate \<lparr>hour = 23, minute = 59, second = 58\<rparr>
          (JDict [(ascii ''scenario'', JStr (ascii ''card_fraud'')),
                  (ascii ''speed'', JStr (ascii ''fast''))])))"
proof -
  let ?c1 = "\<lparr>hour = 9, minute = 5, second = 0\<rparr>"
  let ?c2 = "\<lparr>hour = 23, minute = 59, second = 58\<rparr>"
  let ?b2 = "JDict [(ascii ''scenario'', JStr (ascii ''card_fraud'')),
                    (ascii ''speed'', JStr (ascii ''fast''))]"
  let ?r1 = "\<lparr>scenario = Some (ascii ''upi_scam''), speed = Some (ascii ''normal'')\<rparr>"
  let ?r2 = "\<lparr>scenario = Some (ascii ''card_fraud''), speed = Some (ascii ''fast'')\<rparr>"
  have q1: "parse_SimulationRequest (JDict []) = Inr ?r1"
    by (simp add: parse_SimulationRequest_def validate_optional_str_def getitem_def)
  have q2: "parse_SimulationRequest ?b2 = Inr ?r2"
    by (simp add: parse_SimulationRequest_def validate_optional_str_def getitem_def ascii_def)
  have p1: "post_simulate ?c1 (JDict []) = Inr (the (run_simulation ?c1 ?r1))"
    by (simp add: post_simulate_def q1 run_simulation_events)
  have p2: "post_simulate ?c2 ?b2 = Inr (the (run_simulation ?c2 ?r2))"
    by (simp add: post_simulate_def q2 run_simulation_events)
  have t1: "strftime_HMS ?c1 = ascii ''09:05:00''"
    by (simp add: strftime_HMS_def two_digits_def ascii_def)
  have t2: "strftime_HMS ?c2 = ascii ''23:59:58''"
    by (simp add: strftime_HMS_def two_digits_def ascii_def)
  from post_simulate_content_independent [OF p1 p2] show ?thesis
    unfolding p1 p2 run_simulation_events t1 t2 by (simp add: eval_nat_numeral)
qed

section \<open>The speed field is not checked against an enumeration\<close>

text \<open>
  C1. A request to \<open>POST /api/simulate\<close> whose speed is a string outside slow, normal,
  fast should fail with a validation error and return no list of events. The code does
  otherwise: the field is declared \<open>Optional[str]\<close>, and the three values stand only in the
  comment beside it. At the body with speed \<open>ludicrous\<close> the request is parsed with the
  speed kept as sent, no validation error is raised, and the list of 6 events is returned.
\<close>

theorem speed_ludicrous_accepted:
  "parse_SimulationRequest (JDict [(ascii ''speed'', JStr (ascii ''ludicrous''))])
     = Inr \<lparr>scenario = Some (ascii ''upi_scam''), speed = Some (ascii ''ludicrous'')\<rparr>
   \<and> post_simulate \<lparr>hour = 12, minute = 0, second = 0\<rparr>
       (JDict [(ascii ''speed'', JStr (ascii ''ludicrous''))]) \<noteq> Inl RequestValidationError
   \<and> \<not> isl (post_simulate \<lparr>hour = 12, minute = 0, second = 0\<rparr>
            (JDict [(ascii ''speed'', JStr (ascii ''ludicrous''))]))
   \<and> length (projr (post_simulate \<lparr>hour = 12, minute = 0, second = 0\<rparr>
               (JDict [(ascii ''speed'', JStr (ascii ''ludicrous''))]))) = 6"
  by (simp add: post_simulate_def parse_SimulationRequest_def validate_optional_str_def
      getitem_def run_simulation_events ascii_def)

section \<open>The constant payloads\<close>

text \<open>Two ASCII literals are the same string exactly when they are the same literal.\<close>

lemma ascii_eq_iff: "ascii a = ascii b \<longleftrightarrow> a = b"
proof -
  have "inj (of_char :: char \<Rightarrow> nat)"
    by (rule injI) simp
  then show ?thesis
    by (simp add: ascii_def inj_map_eq_map)
qed

text \<open>
  C6. \<open>get_timeline\<close> returns a dictionary with the one key \<open>items\<close>, a list of exactly 6
  items in a fixed order: the title of the first is "Fraud request created", the title of
  the last is "Recovery workflow initiated".
\<close>

theorem get_timeline_six_items:
  "keys get_timeline = [ascii ''items'']
   \<and> (\<exists>items. getitem get_timeline (ascii ''items'') = Some (JList items)
        \<and> length items = 6
        \<and> json_get (ascii ''title'') (hd items) = Some (JStr (ascii ''Fraud request created''))
        \<and> json_get (ascii ''title'') (last items)
            = Some (JStr (ascii ''Recovery workflow initiated''))
        \<and> map (json_get (ascii ''title'')) items =
            [Some (JStr (ascii ''Fraud request created'')),
             Some (JStr (ascii ''AFSA detected mismatch'')),
             Some (JStr (ascii ''UPI frozen'')),
             Some (JStr (ascii ''Complaint drafted'')),
             Some (JStr (ascii ''Evidence package created'')),
             Some (JStr (ascii ''Recovery workflow initiated''))])"
  by (simp add: get_timeline_def timeline_base_def keys_def getitem_def json_get_def
      ascii_eq_iff)

text \<open>
  C7. \<open>legal_documents\<close> returns a dictionary with the one key \<open>docs\<close>, a list of exactly 4
  documents, and the \<open>actions\<close> of every document are the list preview, download, send, in
  this order.
\<close>

theorem legal_documents_four_docs:
  "keys legal_documents = [ascii ''docs'']
   \<and> (\<exists>docs. getitem legal_documents (ascii ''docs'') = Some (JList docs)
        \<and> length docs = 4
        \<and> map (json_get (ascii ''actions'')) docs =
            replicate (length docs)
              (Some (JList [JStr (ascii ''preview''), JStr (ascii ''download''),
                            JStr (ascii ''send'')])))"
  by (simp add: legal_documents_def legal_docs_def keys_def getitem_def json_get_def
      ascii_eq_iff eval_nat_numeral)

text \<open>
  C8. The timeline and the legal documents do not depend on the state of the process: two
  calls of the same route, in any two states (any clock, any database module, any
  environment), are answered with the same payload, the constant of the handler.
\<close>

theorem timeline_and_legal_docs_idempotent:
  "serve p1 GET_api_timeline = serve p2 GET_api_timeline
   \<and> serve p1 GET_api_legal_docs = serve p2 GET_api_legal_docs
   \<and> serve p1 GET_api_timeline = Inr (JDict get_timeline)
   \<and> serve p1 GET_api_legal_docs = Inr (JDict legal_documents)"
  by (simp add: serve_def)

section \<open>The diagnostic response\<close>

subsection \<open>Assignments to a dictionary\<close>

lemma keys_setitem: "k \<in> set (keys d) \<Longrightarrow> keys (setitem d k v) = keys d"
  by (simp add: keys_def setitem_def update_keys)

lemma getitem_setitem: "getitem (setitem d k v) k' = (if k' = k then Some v else getitem d k')"
  by (simp add: getitem_def setitem_def update_conv')

subsection \<open>The keys never change\<close>

lemma keys_list_collections_block:
  "ascii ''collections'' \<in> set (keys r) \<Longrightarrow> ascii ''database'' \<in> set (keys r) \<Longrightarrow>
   keys (fst (list_collections_block db r)) = keys r"
  by (simp add: list_collections_block_def keys_setitem Let_def split: sum.splits)

lemma keys_try_block:
  assumes "ascii ''collections'' \<in> set (keys r)" "ascii ''database'' \<in> set (keys r)"
    "ascii ''database_url'' \<in> set (keys r)" "ascii ''database_name'' \<in> set (keys r)"
    "ascii ''connection_status'' \<in> set (keys r)"
  shows "keys (fst (try_block w r)) = keys r"
  using assms
  by (simp add: try_block_def keys_setitem keys_list_collections_block Let_def
      split: sum.splits option.splits)

lemma keys_handle_outer:
  "ascii ''database'' \<in> set (keys (fst p)) \<Longrightarrow> handle_outer p = Inr r \<Longrightarrow>
   keys r = keys (fst p)"
  by (auto simp: handle_outer_def keys_setitem split: prod.splits option.splits if_splits)

lemma keys_check_environment:
  "ascii ''database_url'' \<in> set (keys r) \<Longrightarrow> ascii ''database_name'' \<in> set (keys r) \<Longrightarrow>
   keys (check_environment w r) = keys r"
  by (simp add: check_environment_def keys_setitem Let_def)

lemma keys_initial_response:
  "keys initial_response = [ascii ''backend'', ascii ''database'', ascii ''database_url'',
     ascii ''database_name'', ascii ''connection_status'', ascii ''collections'']"
  by (simp add: initial_response_def keys_def)

text \<open>
  C9. Every response of \<open>test_database\<close>, whatever the import, the object \<open>db\<close> and the
  environment do, is a dictionary with exactly the six keys backend, database,
  database_url, database_name, connection_status and collections (in this order, each
  once).
\<close>

theorem test_database_six_keys:
  assumes "test_database w = Inr r"
  shows "keys r = [ascii ''backend'', ascii ''database'', ascii ''database_url'',
     ascii ''database_name'', ascii ''connection_status'', ascii ''collections'']
    \<and> distinct (keys r) \<and> length (keys r) = 6"
proof -
  obtain r' where h: "handle_outer (try_block w initial_response) = Inr r'"
    and r: "r = check_environment w r'"
    using assms by (auto simp: test_database_def split: sum.splits)
  have k0: "keys (fst (try_block w initial_response)) = keys initial_response"
    by (rule keys_try_block) (simp_all add: keys_initial_response)
  have k1: "keys r' = keys initial_response"
    using keys_handle_outer [OF _ h] k0 by (simp add: keys_initial_response)
  have k2: "keys r = keys initial_response"
    unfolding r using k1 by (simp add: keys_check_environment keys_initial_response)
  show ?thesis unfolding k2 keys_initial_response by (simp add: ascii_eq_iff)
qed

text \<open>
  A database whose \<open>list_collection_names\<close> raises: the error is caught by the inner
  handler and reported in \<open>database\<close>, with the six keys in place.
\<close>

theorem test_database_six_keys_witness:
  "test_database
     \<lparr>import_db = Inr (Some \<lparr>getattr_name = Inr (JStr (ascii ''afsa'')),
                               list_collection_names = Inl (OtherException (ascii ''timed out''))\<rparr>),
      getenv = (\<lambda>k. None)\<rparr>
   = Inr [(ascii ''backend'', JStr (check_mark @ ascii '' Running'')),
          (ascii ''database'',
             JStr (warning_sign @ ascii ''  Connected but Error: timed out'')),
          (ascii ''database_url'', JStr (cross_mark @ ascii '' Not Set'')),
          (ascii ''database_name'', JStr (cross_mark @ ascii '' Not Set'')),
          (ascii ''connection_status'', JStr (ascii ''Connected'')),
          (ascii ''collections'', JList [])]
   \<and> keys [(ascii ''backend'', JStr (check_mark @ ascii '' Running'')),
          (ascii ''database'',
             JStr (warning_sign @ ascii ''  Connected but Error: timed out'')),
          (ascii ''database_url'', JStr (cross_mark @ ascii '' Not Set'')),
          (ascii ''database_name'', JStr (cross_mark @ ascii '' Not Set'')),
          (ascii ''connection_status'', JStr (ascii ''Connected'')),
          (ascii ''collections'', JList [])]
     = [ascii ''backend'', ascii ''database'', ascii ''database_url'',
        ascii ''database_name'', ascii ''connection_status'', ascii ''collections'']"
proof -
  let ?w = "\<lparr>import_db = Inr (Some \<lparr>getattr_name = Inr (JStr (ascii ''afsa'')),
                               list_collection_names = Inl (OtherException (ascii ''timed out''))\<rparr>),
      getenv = (\<lambda>k. None)\<rparr>"
  let ?r = "[(ascii ''backend'', JStr (check_mark @ ascii '' Running'')),
          (ascii ''database'',
             JStr (warning_sign @ ascii ''  Connected but Error: timed out'')),
          (ascii ''database_url'', JStr (cross_mark @ ascii '' Not Set'')),
          (ascii ''database_name'', JStr (cross_mark @ ascii '' Not Set'')),
          (ascii ''connection_status'', JStr (ascii ''Connected'')),
          (ascii ''collections'', JList [])]"
  have h: "test_database ?w = Inr ?r"
    by (simp add: test_database_def try_block_def name_or_connected_def
        list_collections_block_def handle_outer_def check_environment_def set_or_not_def
        initial_response_def setitem_def ascii_eq_iff Let_def)
       (simp add: ascii_def)
  from test_database_six_keys [OF h] show ?thesis
    using h by simp
qed

subsection \<open>What is caught and what is reported\<close>

lemma test_database_import_error:
  assumes "import_db w = Inl (ImportError m)"
  shows "test_database w = Inr
    [(ascii ''backend'', JStr (check_mark @ ascii '' Running'')),
     (ascii ''database'', JStr (cross_mark @ ascii '' Database module not found (run enable-database first)'')),
     (ascii ''database_url'', set_or_not (getenv w (ascii ''DATABASE_URL''))),
     (ascii ''database_name'', set_or_not (getenv w (ascii ''DATABASE_NAME''))),
     (ascii ''connection_status'', JStr (ascii ''Not Connected'')),
     (ascii ''collections'', JList [])]"
  using assms
  by (simp add: test_database_def try_block_def handle_outer_def check_environment_def
      initial_response_def setitem_def ascii_eq_iff Let_def)

lemma test_database_escapes:
  "test_database w = Inl e \<Longrightarrow> \<not> isinstance_Exception e"
  by (auto simp: test_database_def handle_outer_def split: sum.splits prod.splits option.splits if_splits)

lemma database_initial: "\<exists>s. getitem initial_response (ascii ''database'') = Some (JStr s)"
  by (simp add: initial_response_def getitem_def ascii_eq_iff)

lemma collections_initial: "getitem initial_response (ascii ''collections'') = Some (JList [])"
  by (simp add: initial_response_def getitem_def ascii_eq_iff)

lemma database_list_collections_block:
  "\<exists>s. getitem r (ascii ''database'') = Some (JStr s) \<Longrightarrow>
   \<exists>s. getitem (fst (list_collections_block db r)) (ascii ''database'') = Some (JStr s)"
  by (auto simp: list_collections_block_def getitem_setitem Let_def split: sum.splits)

lemma database_try_block:
  "\<exists>s. getitem r (ascii ''database'') = Some (JStr s) \<Longrightarrow>
   \<exists>s. getitem (fst (try_block w r)) (ascii ''database'') = Some (JStr s)"
  by (auto simp: try_block_def getitem_setitem Let_def ascii_eq_iff
      intro!: database_list_collections_block split: sum.splits option.splits)

lemma database_handle_outer:
  "\<exists>s. getitem (fst p) (ascii ''database'') = Some (JStr s) \<Longrightarrow> handle_outer p = Inr r \<Longrightarrow>
   \<exists>s. getitem r (ascii ''database'') = Some (JStr s)"
  by (auto simp: handle_outer_def getitem_setitem split: prod.splits option.splits if_splits)

lemma database_check_environment:
  "getitem (check_environment w r) (ascii ''database'') = getitem r (ascii ''database'')"
  by (simp add: check_environment_def getitem_setitem Let_def ascii_eq_iff)

lemma test_database_status_string:
  assumes "test_database w = Inr r"
  shows "\<exists>s. getitem r (ascii ''database'') = Some (JStr s)"
proof -
  obtain r' where h: "handle_outer (try_block w initial_response) = Inr r'"
    and r: "r = check_environment w r'"
    using assms by (auto simp: test_database_def split: sum.splits)
  have "\<exists>s. getitem (fst (try_block w initial_response)) (ascii ''database'') = Some (JStr s)"
    by (rule database_try_block) (rule database_initial)
  then have "\<exists>s. getitem r' (ascii ''database'') = Some (JStr s)"
    using h by (rule database_handle_outer)
  then show ?thesis
    by (simp add: r database_check_environment)
qed

lemma test_database_import_raises:
  assumes "import_db w = Inl e" "isinstance_Exception e"
  shows "\<exists>r. test_database w = Inr r
     \<and> getitem r (ascii ''database'') = Some (JStr
          (if isinstance_ImportError e
           then cross_mark @ ascii '' Database module not found (run enable-database first)''
           else cross_mark @ ascii '' Error: '' @ take 50 (str_exc e)))
     \<and> getitem r (ascii ''connection_status'') = Some (JStr (ascii ''Not Connected''))"
  using assms
  by (simp add: test_database_def try_block_def handle_outer_def check_environment_def
      getitem_setitem ascii_eq_iff Let_def)
     (simp add: initial_response_def getitem_def ascii_eq_iff)

lemma test_database_name_raises:
  assumes "import_db w = Inr (Some db)" "name_or_connected db = Inl e" "isinstance_Exception e"
  shows "\<exists>r. test_database w = Inr r
     \<and> getitem r (ascii ''database'') = Some (JStr
          (if isinstance_ImportError e
           then cross_mark @ ascii '' Database module not found (run enable-database first)''
           else cross_mark @ ascii '' Error: '' @ take 50 (str_exc e)))
     \<and> getitem r (ascii ''connection_status'') = Some (JStr (ascii ''Not Connected''))"
  using assms
  by (simp add: test_database_def try_block_def handle_outer_def check_environment_def
      getitem_setitem ascii_eq_iff Let_def)
     (simp add: initial_response_def getitem_def ascii_eq_iff)

lemma test_database_listing_raises:
  assumes "import_db w = Inr (Some db)" "name_or_connected db = Inr v"
    "list_collection_names db = Inl e" "isinstance_Exception e"
  shows "\<exists>r. test_database w = Inr r
     \<and> getitem r (ascii ''database'') = Some (JStr
          (warning_sign @ ascii ''  Connected but Error: '' @ take 50 (str_exc e)))
     \<and> getitem r (ascii ''connection_status'') = Some (JStr (ascii ''Connected''))
     \<and> getitem r (ascii ''collections'') = Some (JList [])"
  using assms
  by (simp add: test_database_def try_block_def list_collections_block_def handle_outer_def
      check_environment_def getitem_setitem ascii_eq_iff Let_def)
     (simp add: initial_response_def getitem_def ascii_eq_iff)

lemma test_database_environment:
  assumes "test_database w = Inr r"
  shows "getitem r (ascii ''database_url'') = Some (JStr
          (if getenv w (ascii ''DATABASE_URL'') = None \<or> getenv w (ascii ''DATABASE_URL'') = Some []
           then cross_mark @ ascii '' Not Set'' else check_mark @ ascii '' Set''))
     \<and> getitem r (ascii ''database_name'') = Some (JStr
          (if getenv w (ascii ''DATABASE_NAME'') = None \<or> getenv w (ascii ''DATABASE_NAME'') = Some []
           then cross_mark @ ascii '' Not Set'' else check_mark @ ascii '' Set''))"
  using assms
  by (auto simp: test_database_def check_environment_def set_or_not_def getitem_setitem
      ascii_eq_iff Let_def split: sum.splits)

text \<open>
  C5. When no data store is configured (the import of the database module raises
  \<open>ImportError\<close>, and \<open>DATABASE_URL\<close> and \<open>DATABASE_NAME\<close> are unset), \<open>test_database\<close>
  returns, and its response has \<open>database_url\<close> and \<open>database_name\<close> both "Not Set" after
  the cross mark. In every state: no exception that is an instance of \<open>Exception\<close> leaves
  the handler (what leaves it derives from \<open>BaseException\<close> only, such as
  \<open>KeyboardInterrupt\<close>); every response has a string in \<open>database\<close> and reports each of
  the two variables as set or not set; and every error of the data store is rendered in
  \<open>database\<close> as its status string: an error of the import as "Database module not found
  (run enable-database first)" or as "Error: " with the first 50 characters of its message,
  an error of reading \<open>db.name\<close> likewise, and an error of \<open>list_collection_names\<close> as
  "Connected but Error: " with the first 50 characters of its message.
\<close>

theorem test_database_not_configured:
  "(import_db w = Inl (ImportError m) \<and> getenv w (ascii ''DATABASE_URL'') = None
      \<and> getenv w (ascii ''DATABASE_NAME'') = None \<longrightarrow>
    test_database w = Inr
      [(ascii ''backend'', JStr (check_mark @ ascii '' Running'')),
       (ascii ''database'',
          JStr (cross_mark @ ascii '' Database module not found (run enable-database first)'')),
       (ascii ''database_url'', JStr (cross_mark @ ascii '' Not Set'')),
       (ascii ''database_name'', JStr (cross_mark @ ascii '' Not Set'')),
       (ascii ''connection_status'', JStr (ascii ''Not Connected'')),
       (ascii ''collections'', JList [])])
   \<and> (test_database w' = Inl e \<longrightarrow> \<not> isinstance_Exception e)
   \<and> (test_database w' = Inr r \<longrightarrow>
        (\<exists>s. getitem r (ascii ''database'') = Some (JStr s))
        \<and> getitem r (ascii ''database_url'') = Some (JStr
             (if getenv w' (ascii ''DATABASE_URL'') = None
                 \<or> getenv w' (ascii ''DATABASE_URL'') = Some []
              then cross_mark @ ascii '' Not Set'' else check_mark @ ascii '' Set''))
        \<and> getitem r (ascii ''database_name'') = Some (JStr
             (if getenv w' (ascii ''DATABASE_NAME'') = None
                 \<or> getenv w' (ascii ''DATABASE_NAME'') = Some []
              then cross_mark @ ascii '' Not Set'' else check_mark @ ascii '' Set'')))
   \<and> (import_db wi = Inl ei \<and> isinstance_Exception ei \<longrightarrow>
        (\<exists>ri. test_database wi = Inr ri
           \<and> getitem ri (ascii ''database'') = Some (JStr
                (if isinstance_ImportError ei
                 then cross_mark @ ascii '' Database module not found (run enable-database first)''
                 else cross_mark @ ascii '' Error: '' @ take 50 (str_exc ei)))
           \<and> getitem ri (ascii ''connection_status'') = Some (JStr (ascii ''Not Connected''))))
   \<and> (import_db wn = Inr (Some dbn) \<and> name_or_connected dbn = Inl en
        \<and> isinstance_Exception en \<longrightarrow>
        (\<exists>rn. test_database wn = Inr rn
           \<and> getitem rn (ascii ''database'') = Some (JStr
                (if isinstance_ImportError en
                 then cross_mark @ ascii '' Database module not found (run enable-database first)''
                 else cross_mark @ ascii '' Error: '' @ take 50 (str_exc en)))
           \<and> getitem rn (ascii ''connection_status'') = Some (JStr (ascii ''Not Connected''))))
   \<and> (import_db wl = Inr (Some dbl) \<and> name_or_connected dbl = Inr vl
        \<and> list_collection_names dbl = Inl el \<and> isinstance_Exception el \<longrightarrow>
        (\<exists>rl. test_database wl = Inr rl
           \<and> getitem rl (ascii ''database'') = Some (JStr
                (warning_sign @ ascii ''  Connected but Error: '' @ take 50 (str_exc el)))
           \<and> getitem rl (ascii ''connection_status'') = Some (JStr (ascii ''Connected''))
           \<and> getitem rl (ascii ''collections'') = Some (JList [])))"
proof (intro conjI impI)
  assume "import_db w = Inl (ImportError m) \<and> getenv w (ascii ''DATABASE_URL'') = None
      \<and> getenv w (ascii ''DATABASE_NAME'') = None"
  then show "test_database w = Inr
      [(ascii ''backend'', JStr (check_mark @ ascii '' Running'')),
       (ascii ''database'',
          JStr (cross_mark @ ascii '' Database module not found (run enable-database first)'')),
       (ascii ''database_url'', JStr (cross_mark @ ascii '' Not Set'')),
       (ascii ''database_name'', JStr (cross_mark @ ascii '' Not Set'')),
       (ascii ''connection_status'', JStr (ascii ''Not Connected'')),
       (ascii ''collections'', JList [])]"
    by (simp add: test_database_import_error set_or_not_def)
next
  assume "test_database w' = Inl e"
  then show "\<not> isinstance_Exception e"
    by (rule test_database_escapes)
next
  assume "test_database w' = Inr r"
  then show "\<exists>s. getitem r (ascii ''database'') = Some (JStr s)"
    by (rule test_database_status_string)
next
  assume "test_database w' = Inr r"
  then show "getitem r (ascii ''database_url'') = Some (JStr
             (if getenv w' (ascii ''DATABASE_URL'') = None
                 \<or> getenv w' (ascii ''DATABASE_URL'') = Some []
              then cross_mark @ ascii '' Not Set'' else check_mark @ ascii '' Set''))"
    using test_database_environment [of w' r] by blast
next
  assume "test_database w' = Inr r"
  then show "getitem r (ascii ''database_name'') = Some (JStr
             (if getenv w' (ascii ''DATABASE_NAME'') = None
                 \<or> getenv w' (ascii ''DATABASE_NAME'') = Some []
              then cross_mark @ ascii '' Not Set'' else check_mark @ ascii '' Set''))"
    using test_database_environment [of w' r] by blast
next
  assume "import_db wi = Inl ei \<and> isinstance_Exception ei"
  then show "\<exists>ri. test_database wi = Inr ri
           \<and> getitem ri (ascii ''database'') = Some (JStr
                (if isinstance_ImportError ei
                 then cross_mark @ ascii '' Database module not found (run enable-database first)''
                 else cross_mark @ ascii '' Error: '' @ take 50 (str_exc ei)))
           \<and> getitem ri (ascii ''connection_status'') = Some (JStr (ascii ''Not Connected''))"
    using test_database_import_raises [of wi ei] by blast
next
  assume "import_db wn = Inr (Some dbn) \<and> name_or_connected dbn = Inl en
        \<and> isinstance_Exception en"
  then show "\<exists>rn. test_database wn = Inr rn
           \<and> getitem rn (ascii ''database'') = Some (JStr
                (if isinstance_ImportError en
                 then cross_mark @ ascii '' Database module not found (run enable-database first)''
                 else cross_mark @ ascii '' Error: '' @ take 50 (str_exc en)))
           \<and> getitem rn (ascii ''connection_status'') = Some (JStr (ascii ''Not Connected''))"
    using test_database_name_raises [of wn dbn en] by blast
next
  assume "import_db wl = Inr (Some dbl) \<and> name_or_connected dbl = Inr vl
        \<and> list_collection_names dbl = Inl el \<and> isinstance_Exception el"
  then show "\<exists>rl. test_database wl = Inr rl
           \<and> getitem rl (ascii ''database'') = Some (JStr
                (warning_sign @ ascii ''  Connected but Error: '' @ take 50 (str_exc el)))
           \<and> getitem rl (ascii ''connection_status'') = Some (JStr (ascii ''Connected''))
           \<and> getitem rl (ascii ''collections'') = Some (JList [])"
    using test_database_listing_raises [of wl dbl vl el] by blast
qed

text \<open>
  Five states: no database module and an empty environment; an import interrupted from the
  keyboard, the one kind of exception that is not caught; an import that fails with another
  error; a \<open>db.name\<close> that raises with a message of 64 characters, cut to 50; and a
  \<open>list_collection_names\<close> that raises.
\<close>

theorem test_database_not_configured_witness:
  "test_database \<lparr>import_db = Inl (ImportError (ascii ''No module named database'')),
                  getenv = (\<lambda>k. None)\<rparr>
   = Inr [(ascii ''backend'', JStr (check_mark @ ascii '' Running'')),
       (ascii ''database'',
          JStr (cross_mark @ ascii '' Database module not found (run enable-database first)'')),
       (ascii ''database_url'', JStr (cross_mark @ ascii '' Not Set'')),
       (ascii ''database_name'', JStr (cross_mark @ ascii '' Not Set'')),
       (ascii ''connection_status'', JStr (ascii ''Not Connected'')),
       (ascii ''collections'', JList [])]
   \<and> test_database \<lparr>import_db = Inl (BaseExceptionOnly (ascii ''KeyboardInterrupt'')),
                    getenv = (\<lambda>k. None)\<rparr>
     = Inl (BaseExceptionOnly (ascii ''KeyboardInterrupt''))
   \<and> \<not> isinstance_Exception (BaseExceptionOnly (ascii ''KeyboardInterrupt''))
   \<and> (\<exists>ri. test_database \<lparr>import_db = Inl (OtherException (ascii ''connection refused'')),
                           getenv = (\<lambda>k. None)\<rparr> = Inr ri
        \<and> getitem ri (ascii ''database'')
            = Some (JStr (cross_mark @ ascii '' Error: connection refused'')))
   \<and> (\<exists>rn. test_database
          \<lparr>import_db = Inr (Some
             \<lparr>getattr_name = Inl (OtherException (ascii
                 ''ServerSelectionTimeoutError: localhost:27017: connection refused'')),
              list_collection_names = Inr []\<rparr>),
           getenv = (\<lambda>k. None)\<rparr> = Inr rn
        \<and> getitem rn (ascii ''database'')
            = Some (JStr (cross_mark
                 @ ascii '' Error: ServerSelectionTimeoutError: localhost:27017: conn'')))
   \<and> (\<exists>rl. test_database
          \<lparr>import_db = Inr (Some
             \<lparr>getattr_name = Inr (JStr (ascii ''afsa'')),
              list_collection_names = Inl (OtherException (ascii ''not authorized''))\<rparr>),
           getenv = (\<lambda>k. None)\<rparr> = Inr rl
        \<and> getitem rl (ascii ''database'')
            = Some (JStr (warning_sign @ ascii ''  Connected but Error: not authorized'')))"
proof -
  let ?w0 = "\<lparr>import_db = Inl (ImportError (ascii ''No module named database'')),
                  getenv = (\<lambda>k. None)\<rparr>"
  let ?w1 = "\<lparr>import_db = Inl (BaseExceptionOnly (ascii ''KeyboardInterrupt'')),
                    getenv = (\<lambda>k. None)\<rparr>"
  let ?ei = "OtherException (ascii ''connection refused'')"
  let ?wi = "\<lparr>import_db = Inl ?ei, getenv = (\<lambda>k. None)\<rparr>"
  let ?en = "OtherException (ascii
                 ''ServerSelectionTimeoutError: localhost:27017: connection refused'')"
  let ?dbn = "\<lparr>getattr_name = Inl ?en, list_collection_names = Inr []\<rparr>"
  let ?wn = "\<lparr>import_db = Inr (Some ?dbn), getenv = (\<lambda>k. None)\<rparr>"
  let ?el = "OtherException (ascii ''not authorized'')"
  let ?dbl = "\<lparr>getattr_name = Inr (JStr (ascii ''afsa'')), list_collection_names = Inl ?el\<rparr>"
  let ?wl = "\<lparr>import_db = Inr (Some ?dbl), getenv = (\<lambda>k. None)\<rparr>"
  note inst = test_database_not_configured
    [of ?w0 "ascii ''No module named database''" ?w1
        "BaseExceptionOnly (ascii ''KeyboardInterrupt'')" _ ?wi ?ei ?wn ?dbn ?en ?wl ?dbl
        "JStr (ascii ''afsa'')" ?el]
  have a: "import_db ?w0 = Inl (ImportError (ascii ''No module named database''))
      \<and> getenv ?w0 (ascii ''DATABASE_URL'') = None \<and> getenv ?w0 (ascii ''DATABASE_NAME'') = None"
    by simp
  have b: "test_database ?w1 = Inl (BaseExceptionOnly (ascii ''KeyboardInterrupt''))"
    by (simp add: test_database_def try_block_def handle_outer_def)
  have c: "import_db ?wi = Inl ?ei \<and> isinstance_Exception ?ei"
    by simp
  have d: "import_db ?wn = Inr (Some ?dbn) \<and> name_or_connected ?dbn = Inl ?en
      \<and> isinstance_Exception ?en"
    by (simp add: name_or_connected_def)
  have e: "import_db ?wl = Inr (Some ?dbl) \<and> name_or_connected ?dbl = Inr (JStr (ascii ''afsa''))
      \<and> list_collection_names ?dbl = Inl ?el \<and> isinstance_Exception ?el"
    by (simp add: name_or_connected_def)
  have t50: "take 50 (ascii ''ServerSelectionTimeoutError: localhost:27017: connection refused'')
      = ascii ''ServerSelectionTimeoutError: localhost:27017: conn''"
    by (simp add: ascii_def)
  have ti: "take 50 (ascii ''connection refused'') = ascii ''connection refused''"
    by (simp add: ascii_def)
  have tl: "take 50 (ascii ''not authorized'') = ascii ''not authorized''"
    by (simp add: ascii_def)
  have s1: "ascii '' Error: ServerSelectionTimeoutError: localhost:27017: conn''
      = ascii '' Error: '' @ ascii ''ServerSelectionTimeoutError: localhost:27017: conn''"
    by (simp add: ascii_def)
  have s2: "ascii '' Error: connection refused'' = ascii '' Error: '' @ ascii ''connection refused''"
    by (simp add: ascii_def)
  have s3: "ascii ''  Connected but Error: not authorized''
      = ascii ''  Connected but Error: '' @ ascii ''not authorized''"
    by (simp add: ascii_def)
  from inst a b c d e show ?thesis
    unfolding s1 s2 s3 by (auto simp: t50 ti tl)
qed

subsection \<open>The list of collections\<close>

lemma collections_list_collections_block:
  "\<exists>cs. getitem r (ascii ''collections'') = Some (JList cs) \<and> length cs \<le> 10 \<Longrightarrow>
   \<exists>cs. getitem (fst (list_collections_block db r)) (ascii ''collections'') = Some (JList cs)
      \<and> length cs \<le> 10"
  by (auto simp: list_collections_block_def getitem_setitem Let_def ascii_eq_iff split: sum.splits)

lemma collections_try_block:
  "\<exists>cs. getitem r (ascii ''collections'') = Some (JList cs) \<and> length cs \<le> 10 \<Longrightarrow>
   \<exists>cs. getitem (fst (try_block w r)) (ascii ''collections'') = Some (JList cs) \<and> length cs \<le> 10"
  by (auto simp: try_block_def getitem_setitem Let_def ascii_eq_iff
      intro!: collections_list_collections_block split: sum.splits option.splits)

lemma collections_handle_outer:
  "handle_outer p = Inr r \<Longrightarrow>
   getitem r (ascii ''collections'') = getitem (fst p) (ascii ''collections'')"
  by (auto simp: handle_outer_def getitem_setitem ascii_eq_iff
      split: prod.splits option.splits if_splits)

lemma collections_check_environment:
  "getitem (check_environment w r) (ascii ''collections'') = getitem r (ascii ''collections'')"
  by (simp add: check_environment_def getitem_setitem Let_def ascii_eq_iff)

lemma test_database_collections_bound:
  assumes "test_database w = Inr r"
  shows "\<exists>cs. getitem r (ascii ''collections'') = Some (JList cs) \<and> length cs \<le> 10"
proof -
  obtain r' where h: "handle_outer (try_block w initial_response) = Inr r'"
    and r: "r = check_environment w r'"
    using assms by (auto simp: test_database_def split: sum.splits)
  have "\<exists>cs. getitem (fst (try_block w initial_response)) (ascii ''collections'') = Some (JList cs)
      \<and> length cs \<le> 10"
    by (rule collections_try_block) (simp add: collections_initial)
  then show ?thesis
    by (simp add: r collections_check_environment collections_handle_outer [OF h])
qed

lemma test_database_collections_reported:
  assumes "import_db w = Inr (Some db)" "name_or_connected db = Inr v"
    "list_collection_names db = Inr names"
  shows "\<exists>r. test_database w = Inr r
     \<and> getitem r (ascii ''collections'') = Some (JList (map JStr (take 10 names)))"
  using assms
  by (simp add: test_database_def try_block_def list_collections_block_def handle_outer_def
      collections_check_environment getitem_setitem ascii_eq_iff Let_def)

text \<open>
  C10. In every response of \<open>test_database\<close> the field \<open>collections\<close> is a list of at most
  10 entries; when \<open>db.list_collection_names()\<close> is reached and returns, the field holds
  the first 10 names it returned (all of them when there are fewer).
\<close>

theorem test_database_collections_at_most_10:
  "(test_database w = Inr r \<longrightarrow>
      (\<exists>cs. getitem r (ascii ''collections'') = Some (JList cs) \<and> length cs \<le> 10))
   \<and> (import_db w = Inr (Some db) \<and> name_or_connected db = Inr v
        \<and> list_collection_names db = Inr names \<longrightarrow>
      (\<exists>r. test_database w = Inr r
         \<and> getitem r (ascii ''collections'') = Some (JList (map JStr (take 10 names)))))"
  using test_database_collections_bound test_database_collections_reported by blast

text \<open>A database with 12 collections, and no attribute \<open>name\<close>: the first 10 are listed.\<close>

theorem test_database_collections_at_most_10_witness:
  "(\<exists>r. test_database
       \<lparr>import_db = Inr (Some \<lparr>getattr_name = Inl (AttributeError (ascii ''name'')),
          list_collection_names = Inr [ascii ''c01'', ascii ''c02'', ascii ''c03'', ascii ''c04'',
            ascii ''c05'', ascii ''c06'', ascii ''c07'', ascii ''c08'', ascii ''c09'', ascii ''c10'',
            ascii ''c11'', ascii ''c12'']\<rparr>),
        getenv = (\<lambda>k. Some (ascii ''x''))\<rparr> = Inr r
     \<and> getitem r (ascii ''collections'')
         = Some (JList [JStr (ascii ''c01''), JStr (ascii ''c02''), JStr (ascii ''c03''),
             JStr (ascii ''c04''), JStr (ascii ''c05''), JStr (ascii ''c06''), JStr (ascii ''c07''),
             JStr (ascii ''c08''), JStr (ascii ''c09''), JStr (ascii ''c10'')]))
   \<and> length [JStr (ascii ''c01''), JStr (ascii ''c02''), JStr (ascii ''c03''),
             JStr (ascii ''c04''), JStr (ascii ''c05''), JStr (ascii ''c06''), JStr (ascii ''c07''),
             JStr (ascii ''c08''), JStr (ascii ''c09''), JStr (ascii ''c10'')] \<le> (10::nat)"
proof -
  let ?names = "[ascii ''c01'', ascii ''c02'', ascii ''c03'', ascii ''c04'',
            ascii ''c05'', ascii ''c06'', ascii ''c07'', ascii ''c08'', ascii ''c09'', ascii ''c10'',
            ascii ''c11'', ascii ''c12'']"
  let ?db = "\<lparr>getattr_name = Inl (AttributeError (ascii ''name'')),
          list_collection_names = Inr ?names\<rparr>"
  let ?w = "\<lparr>import_db = Inr (Some ?db), getenv = (\<lambda>k. Some (ascii ''x''))\<rparr>"
  have a: "import_db ?w = Inr (Some ?db)
      \<and> name_or_connected ?db = Inr (JStr (check_mark @ ascii '' Connected''))
      \<and> list_collection_names ?db = Inr ?names"
    by (simp add: name_or_connected_def)
  have t: "take 10 ?names = [ascii ''c01'', ascii ''c02'', ascii ''c03'', ascii ''c04'',
            ascii ''c05'', ascii ''c06'', ascii ''c07'', ascii ''c08'', ascii ''c09'', ascii ''c10'']"
    by (simp add: eval_nat_numeral)
  from test_database_collections_at_most_10
    [of ?w _ ?db "JStr (check_mark @ ascii '' Connected'')" ?names] a
  obtain r where r: "test_database ?w = Inr r"
    "getitem r (ascii ''collections'') = Some (JList (map JStr (take 10 ?names)))"
    by blast
  from test_database_collections_at_most_10 [of ?w r] r(1)
  have "\<exists>cs. getitem r (ascii ''collections'') = Some (JList cs) \<and> length cs \<le> 10"
    by blast
  with r show ?thesis
    unfolding t by auto
qed

end
